theory Spec2Isabelle
  imports Main "HOL-Library.Word"
begin

section \<open>API-model to domain-model translation (package typeutils)\<close>

text \<open>
  The enumerated constants of the packages \<^verbatim>\<open>apimodel\<close> and \<^verbatim>\<open>gtsmodel\<close> are declared
  outside the translated files, so each translation function takes them as a record of
  parameters. The domain types \<^verbatim>\<open>gtsmodel.Visibility\<close> and \<^verbatim>\<open>gtsmodel.MarkerName\<close> are
  string types (the functions return the untyped constant \<^verbatim>\<open>""\<close>); the other enumerated
  types are kept abstract. A Go \<^verbatim>\<open>switch\<close> takes the first case that is equal to its
  operand, which is the order of the \<open>if\<close> chain below.
\<close>

record 'a Visibility_consts =
  apimodel_VisibilityPublic :: 'a
  apimodel_VisibilityUnlisted :: 'a
  apimodel_VisibilityPrivate :: 'a
  apimodel_VisibilityMutualsOnly :: 'a
  apimodel_VisibilityDirect :: 'a
  gtsmodel_VisibilityPublic :: string
  gtsmodel_VisibilityUnlocked :: string
  gtsmodel_VisibilityFollowersOnly :: string
  gtsmodel_VisibilityMutualsOnly :: string
  gtsmodel_VisibilityDirect :: string

record 'a MarkerName_consts =
  apimodel_MarkerNameHome :: 'a
  apimodel_MarkerNameNotifications :: 'a
  gtsmodel_MarkerNameHome :: string
  gtsmodel_MarkerNameNotifications :: string

record ('a, 'b) FilterAction_consts =
  apimodel_FilterActionWarn :: 'a
  apimodel_FilterActionHide :: 'a
  gtsmodel_FilterActionWarn :: 'b
  gtsmodel_FilterActionHide :: 'b
  gtsmodel_FilterActionNone :: 'b

definition APIVisToVis :: "'a Visibility_consts \<Rightarrow> 'a \<Rightarrow> string" where
  "APIVisToVis C m =
     (if m = apimodel_VisibilityPublic C then gtsmodel_VisibilityPublic C
      else if m = apimodel_VisibilityUnlisted C then gtsmodel_VisibilityUnlocked C
      else if m = apimodel_VisibilityPrivate C then gtsmodel_VisibilityFollowersOnly C
      else if m = apimodel_VisibilityMutualsOnly C then gtsmodel_VisibilityMutualsOnly C
      else if m = apimodel_VisibilityDirect C then gtsmodel_VisibilityDirect C
      else '''')"

definition APIMarkerNameToMarkerName :: "'a MarkerName_consts \<Rightarrow> 'a \<Rightarrow> string" where
  "APIMarkerNameToMarkerName C m =
     (if m = apimodel_MarkerNameHome C then gtsmodel_MarkerNameHome C
      else if m = apimodel_MarkerNameNotifications C then gtsmodel_MarkerNameNotifications C
      else '''')"

definition APIFilterActionToFilterAction :: "('a, 'b) FilterAction_consts \<Rightarrow> 'a \<Rightarrow> 'b" where
  "APIFilterActionToFilterAction C m =
     (if m = apimodel_FilterActionWarn C then gtsmodel_FilterActionWarn C
      else if m = apimodel_FilterActionHide C then gtsmodel_FilterActionHide C
      else gtsmodel_FilterActionNone C)"

text \<open>The enumerated API values of each type, in the order of the cases.\<close>

definition api_visibilities :: "'a Visibility_consts \<Rightarrow> 'a list" where
  "api_visibilities C =
     [apimodel_VisibilityPublic C, apimodel_VisibilityUnlisted C, apimodel_VisibilityPrivate C,
      apimodel_VisibilityMutualsOnly C, apimodel_VisibilityDirect C]"

definition api_marker_names :: "'a MarkerName_consts \<Rightarrow> 'a list" where
  "api_marker_names C = [apimodel_MarkerNameHome C, apimodel_MarkerNameNotifications C]"

definition api_filter_actions :: "('a, 'b) FilterAction_consts \<Rightarrow> 'a list" where
  "api_filter_actions C = [apimodel_FilterActionWarn C, apimodel_FilterActionHide C]"

text \<open>Concrete constants, with the strings of the Mastodon client API, to run the functions on.\<close>

definition example_vis :: "string Visibility_consts" where
  "example_vis =
     \<lparr>apimodel_VisibilityPublic = ''public'', apimodel_VisibilityUnlisted = ''unlisted'',
      apimodel_VisibilityPrivate = ''private'', apimodel_VisibilityMutualsOnly = ''mutuals_only'',
      apimodel_VisibilityDirect = ''direct'',
      gtsmodel_VisibilityPublic = ''public'', gtsmodel_VisibilityUnlocked = ''unlocked'',
      gtsmodel_VisibilityFollowersOnly = ''followers_only'',
      gtsmodel_VisibilityMutualsOnly = ''mutuals_only'', gtsmodel_VisibilityDirect = ''direct''\<rparr>"

definition example_marker :: "string MarkerName_consts" where
  "example_marker =
     \<lparr>apimodel_MarkerNameHome = ''home'', apimodel_MarkerNameNotifications = ''notifications'',
      gtsmodel_MarkerNameHome = ''home'', gtsmodel_MarkerNameNotifications = ''notifications''\<rparr>"

definition example_filter :: "(string, nat) FilterAction_consts" where
  "example_filter =
     \<lparr>apimodel_FilterActionWarn = ''warn'', apimodel_FilterActionHide = ''hide'',
      gtsmodel_FilterActionWarn = 1, gtsmodel_FilterActionHide = 2, gtsmodel_FilterActionNone = 0\<rparr>"


section \<open>S3 storage configuration (package s3)\<close>

text \<open>
  \<^verbatim>\<open>Config\<close> holds six option structs of the minio client library, whose declarations
  are outside the translated files: they are type parameters here, and the zero value
  \<^verbatim>\<open>T{}\<close> of such a struct is written \<open>0\<close> (type class \<open>zero\<close>). \<^verbatim>\<open>PutChunkSize\<close> is an
  \<^verbatim>\<open>int64\<close> and \<^verbatim>\<open>ListSize\<close> an \<^verbatim>\<open>int\<close> (64 bits wide on the supported platforms); both
  are compared as signed numbers.
\<close>

record ('core, 'get, 'put, 'chunk, 'stat, 'rm) Config =
  CoreOpts :: 'core
  GetOpts :: 'get
  PutOpts :: 'put
  PutChunkSize :: "64 word"
  PutChunkOpts :: 'chunk
  StatOpts :: 'stat
  RemoveOpts :: 'rm
  ListSize :: "64 word"

definition defaultConfig ::
  "('core::zero, 'get::zero, 'put::zero, 'chunk::zero, 'stat::zero, 'rm::zero) Config" where
  "defaultConfig =
     \<lparr>CoreOpts = 0, GetOpts = 0, PutOpts = 0, PutChunkSize = 4 * 1024 * 1024,
      PutChunkOpts = 0, StatOpts = 0, RemoveOpts = 0, ListSize = 200\<rparr>"

definition minChunkSz :: "64 word" where
  "minChunkSz = 5 * 1024 * 1024"

text \<open>
  \<^verbatim>\<open>getS3Config\<close> takes a pointer: \<open>None\<close> is the nil pointer. The function writes the
  adjusted sizes through the pointer before it builds its result, so the model returns
  the caller's struct as it is left behind together with the returned \<^verbatim>\<open>Config\<close>. The
  composite literal of the result names seven of the eight fields; the field it does not
  name, \<^verbatim>\<open>PutChunkOpts\<close>, takes its zero value.
\<close>

definition getS3Config ::
  "('core::zero, 'get::zero, 'put::zero, 'chunk::zero, 'stat::zero, 'rm::zero) Config option \<Rightarrow>
   ('core, 'get, 'put, 'chunk, 'stat, 'rm) Config option \<times> ('core, 'get, 'put, 'chunk, 'stat, 'rm) Config" where
  "getS3Config cfg =
     (case cfg of
        None \<Rightarrow> (None, defaultConfig)
      | Some c0 \<Rightarrow>
          (let c1 = (if PutChunkSize c0 \<le>s minChunkSz then c0\<lparr>PutChunkSize := minChunkSz\<rparr> else c0);
               c2 = (if ListSize c1 \<le>s 0 then c1\<lparr>ListSize := 200\<rparr> else c1)
           in (Some c2,
               \<lparr>CoreOpts = CoreOpts c2, GetOpts = GetOpts c2, PutOpts = PutOpts c2,
                PutChunkSize = PutChunkSize c2, PutChunkOpts = 0, StatOpts = StatOpts c2,
                RemoveOpts = RemoveOpts c2, ListSize = ListSize c2\<rparr>)))"

text \<open>A configuration that sets every option struct to a value other than its zero value.\<close>

definition example_cfg :: "(nat, nat, nat, nat, nat, nat) Config" where
  "example_cfg =
     \<lparr>CoreOpts = 1, GetOpts = 2, PutOpts = 3, PutChunkSize = 8 * 1024 * 1024,
      PutChunkOpts = 4, StatOpts = 5, RemoveOpts = 6, ListSize = 50\<rparr>"


section \<open>Struct field descriptors (package structr, runtime.go)\<close>

subsection \<open>Types, pointers and memory\<close>

text \<open>
  \<^verbatim>\<open>reflect.Type\<close> is modelled by the finite type expressions that \<^verbatim>\<open>find_field\<close> can tell
  apart: a scalar of some kind, a pointer to a type, and a struct with its fields in
  declaration order, each with its name, its byte offset in the struct
  (\<^verbatim>\<open>StructField.Offset\<close>), its type, and whether it is an embedded field
  (\<^verbatim>\<open>StructField.Anonymous\<close>). A recursive Go type is represented by its unfolding to the
  depth a path needs.
\<close>

type_synonym uintptr = "64 word"

datatype kind = KBool | KInt | KString

datatype rtype = Basic kind | Pointer rtype | Struct "(string \<times> uintptr \<times> rtype \<times> bool) list"

text \<open>
  An \<^verbatim>\<open>unsafe.Pointer\<close> is nil or points into an allocated object: it is a block number
  together with a byte offset inside the block, and \<^verbatim>\<open>uintptr\<close> arithmetic acts on the
  offset and wraps at 64 bits. Adding an offset to nil does not give a pointer to
  anything; the model reports it as the error \<open>NilArithmetic\<close>, so a run that returns a
  value has never done it.
\<close>

datatype pointer = NilPtr | Ptr nat uintptr

text \<open>
  The values an \<^verbatim>\<open>any\<close> can hold after \<^verbatim>\<open>UnsafeIndirect\<close>: \<open>VNil\<close> is the nil interface
  that \<^verbatim>\<open>make([]any, n)\<close> fills a slice with.
\<close>

datatype val = VNil | VBool bool | VInt "64 word" | VString string | VPtr pointer | VStruct "val list"

text \<open>
  Memory holds one cell at the place of each scalar and each pointer. A cell of freshly
  allocated memory is \<open>Zeroed\<close> (all bytes zero) and reads as the zero value at every
  type. The heap also counts the blocks handed out so far.
\<close>

datatype cell = Zeroed | Holds val

record heap =
  cells :: "nat \<Rightarrow> uintptr \<Rightarrow> cell option"
  next_block :: nat

text \<open>
  The first four errors are the panics of \<^verbatim>\<open>find_field\<close> (the last of them is raised by
  the mangler lookup); the others are the ways in which following raw pointers can go
  wrong.
\<close>

datatype error =
    FieldNotExported string
  | NotStruct rtype string
  | UnknownField string
  | CannotMangle rtype
  | NilDereference
  | Segfault pointer
  | BadCell pointer
  | NilArithmetic

fun is_ConfigurationError :: "error \<Rightarrow> bool" where
  "is_ConfigurationError (FieldNotExported name) = True"
| "is_ConfigurationError (NotStruct t name) = True"
| "is_ConfigurationError (UnknownField name) = True"
| "is_ConfigurationError (CannotMangle t) = True"
| "is_ConfigurationError e = False"

text \<open>
  The functions of the Go standard library and of the mangler package that
  \<^verbatim>\<open>find_field\<close> calls are parameters: \<^verbatim>\<open>utf8.DecodeRuneInString\<close> (rune and width),
  \<^verbatim>\<open>unicode.IsUpper\<close>, the method \<^verbatim>\<open>FieldByName\<close> of \<^verbatim>\<open>reflect.Type\<close>, which gives the
  \<^verbatim>\<open>Offset\<close> and the \<^verbatim>\<open>Type\<close> of the field it finds or reports that there is none
  (\<open>None\<close>), and \<^verbatim>\<open>mangler.Get\<close>, which gives the encoder of a type or panics (\<open>None\<close>)
  when the type has none.
\<close>

record lib =
  utf8_DecodeRuneInString :: "string \<Rightarrow> nat \<times> nat"
  unicode_IsUpper :: "nat \<Rightarrow> bool"
  reflect_FieldByName :: "rtype \<Rightarrow> string \<Rightarrow> (uintptr \<times> rtype) option"
  mangler_Get :: "rtype \<Rightarrow> (val \<Rightarrow> string) option"

text \<open>
  \<^verbatim>\<open>derefs\<close> is a \<^verbatim>\<open>uint\<close> that counts the pointer layers of one type; no type has
  \<open>2 ^ 64\<close> of them, so the counter is a natural number.
\<close>

record next_offset =
  derefs :: nat
  offset :: uintptr

record struct_field =
  type2 :: rtype
  offsets :: "next_offset list"
  mangle :: "val \<Rightarrow> string"
  zero :: pointer
  zerostr :: string

subsection \<open>The reflection and memory primitives\<close>

fun is_struct :: "rtype \<Rightarrow> bool" where
  "is_struct (Struct fs) = True"
| "is_struct t = False"

fun zero_basic :: "kind \<Rightarrow> val" where
  "zero_basic KBool = VBool False"
| "zero_basic KInt = VInt 0"
| "zero_basic KString = VString ''''"

fun zero_val :: "rtype \<Rightarrow> val" where
  "zero_val (Basic k) = zero_basic k"
| "zero_val (Pointer t) = VPtr NilPtr"
| "zero_val (Struct fs) = VStruct (map (\<lambda>(name, off, ft, anon). zero_val ft) fs)"

text \<open>The offsets of the cells that a value of a type occupies when it is stored at \<open>base\<close>.\<close>

fun cell_offsets :: "rtype \<Rightarrow> uintptr \<Rightarrow> uintptr list" where
  "cell_offsets (Basic k) base = [base]"
| "cell_offsets (Pointer t) base = [base]"
| "cell_offsets (Struct fs) base = concat (map (\<lambda>(name, off, ft, anon). cell_offsets ft (base + off)) fs)"

fun has_kind :: "kind \<Rightarrow> val \<Rightarrow> bool" where
  "has_kind KBool (VBool b) = True"
| "has_kind KInt (VInt i) = True"
| "has_kind KString (VString s) = True"
| "has_kind k v = False"

fun read :: "heap \<Rightarrow> pointer \<Rightarrow> error + cell" where
  "read h NilPtr = Inl NilDereference"
| "read h (Ptr b i) = (case cells h b i of None \<Rightarrow> Inl (Segfault (Ptr b i)) | Some c \<Rightarrow> Inr c)"

text \<open>The load \<^verbatim>\<open>*(*unsafe.Pointer)(p)\<close>.\<close>

definition read_ptr :: "heap \<Rightarrow> pointer \<Rightarrow> error + pointer" where
  "read_ptr h p =
     (case read h p of
        Inl e \<Rightarrow> Inl e
      | Inr Zeroed \<Rightarrow> Inr NilPtr
      | Inr (Holds (VPtr q)) \<Rightarrow> Inr q
      | Inr (Holds v) \<Rightarrow> Inl (BadCell p))"

text \<open>The sum \<^verbatim>\<open>unsafe.Pointer(uintptr(p) + off)\<close>.\<close>

fun ptr_add :: "pointer \<Rightarrow> uintptr \<Rightarrow> error + pointer" where
  "ptr_add NilPtr off = Inl NilArithmetic"
| "ptr_add (Ptr b i) off = Inr (Ptr b (i + off))"

fun sequence :: "(error + 'a) list \<Rightarrow> error + 'a list" where
  "sequence [] = Inr []"
| "sequence (x # xs) =
     (case x of
        Inl e \<Rightarrow> Inl e
      | Inr v \<Rightarrow> (case sequence xs of Inl e \<Rightarrow> Inl e | Inr vs \<Rightarrow> Inr (v # vs)))"

text \<open>
  \<^verbatim>\<open>reflect2.Type.UnsafeIndirect\<close> packs the value of the given type that is stored at a
  pointer into an interface: the result is that value, read out of memory.
\<close>

fun UnsafeIndirect :: "heap \<Rightarrow> rtype \<Rightarrow> pointer \<Rightarrow> error + val" where
  "UnsafeIndirect h (Basic k) p =
     (case read h p of
        Inl e \<Rightarrow> Inl e
      | Inr Zeroed \<Rightarrow> Inr (zero_basic k)
      | Inr (Holds v) \<Rightarrow> if has_kind k v then Inr v else Inl (BadCell p))"
| "UnsafeIndirect h (Pointer t) p =
     (case read_ptr h p of Inl e \<Rightarrow> Inl e | Inr q \<Rightarrow> Inr (VPtr q))"
| "UnsafeIndirect h (Struct fs) p =
     (case p of
        NilPtr \<Rightarrow> Inl NilDereference
      | Ptr b i \<Rightarrow>
          (case sequence (map (\<lambda>(name, off, ft, anon). UnsafeIndirect h ft (Ptr b (i + off))) fs) of
             Inl e \<Rightarrow> Inl e
           | Inr vs \<Rightarrow> Inr (VStruct vs)))"

text \<open>
  \<^verbatim>\<open>reflect2.Type.UnsafeNew\<close> allocates a new object of the type: a new block, zeroed at
  the cells of the type and unmapped elsewhere.
\<close>

definition UnsafeNew :: "heap \<Rightarrow> rtype \<Rightarrow> pointer \<times> heap" where
  "UnsafeNew h t =
     (let b = next_block h
      in (Ptr b 0,
          h\<lparr>cells := (cells h)(b := (\<lambda>i. if i \<in> set (cell_offsets t 0) then Some Zeroed else None)),
            next_block := Suc b\<rparr>))"

subsection \<open>\<^verbatim>\<open>find_field\<close>\<close>

definition is_exported :: "lib \<Rightarrow> string \<Rightarrow> bool" where
  "is_exported L name = (case utf8_DecodeRuneInString L name of (r, w) \<Rightarrow> unicode_IsUpper L r)"

text \<open>The inner loop \<^verbatim>\<open>for t.Kind() == reflect.Pointer { t = t.Elem(); off.derefs++ }\<close>.\<close>

fun strip_pointers :: "rtype \<Rightarrow> nat \<Rightarrow> rtype \<times> nat" where
  "strip_pointers (Pointer t) n = strip_pointers t (Suc n)"
| "strip_pointers t n = (t, n)"

text \<open>
  The loop over the names, with the slice \<^verbatim>\<open>sfield.offsets\<close> as accumulator: pop the name
  and check that it is exported, strip the pointers, check for a struct, look the field
  up, append the offset, go on with the type of the field.
\<close>

fun find_offsets :: "lib \<Rightarrow> rtype \<Rightarrow> string list \<Rightarrow> next_offset list \<Rightarrow> error + (next_offset list \<times> rtype)" where
  "find_offsets L t [] offs = Inr (offs, t)"
| "find_offsets L t (name # names) offs =
     (if \<not> is_exported L name then Inl (FieldNotExported name)
      else case strip_pointers t 0 of (t', n) \<Rightarrow>
        if \<not> is_struct t' then Inl (NotStruct t' name)
        else case reflect_FieldByName L t' name of
               None \<Rightarrow> Inl (UnknownField name)
             | Some (off, ft) \<Rightarrow> find_offsets L ft names (offs @ [\<lparr>derefs = n, offset = off\<rparr>]))"

definition find_field :: "lib \<Rightarrow> heap \<Rightarrow> rtype \<Rightarrow> string list \<Rightarrow> error + (struct_field \<times> heap)" where
  "find_field L h t names =
     (case find_offsets L t names [] of
        Inl e \<Rightarrow> Inl e
      | Inr (offs, t') \<Rightarrow>
          (case mangler_Get L t' of
             None \<Rightarrow> Inl (CannotMangle t')
           | Some m \<Rightarrow>
               (case UnsafeNew h t' of (z, h') \<Rightarrow>
                  (case UnsafeIndirect h' t' z of
                     Inl e \<Rightarrow> Inl e
                   | Inr i \<Rightarrow>
                       Inr (\<lparr>type2 = t', offsets = offs, mangle = m, zero = z, zerostr = m i\<rparr>, h')))))"

subsection \<open>\<^verbatim>\<open>deref\<close> and \<^verbatim>\<open>extract_fields\<close>\<close>

fun deref :: "heap \<Rightarrow> pointer \<Rightarrow> nat \<Rightarrow> error + pointer" where
  "deref h p 0 = Inr p"
| "deref h p (Suc n) =
     (if p = NilPtr then Inr NilPtr
      else case read_ptr h p of Inl e \<Rightarrow> Inl e | Inr q \<Rightarrow> deref h q n)"

text \<open>The loop over \<^verbatim>\<open>field.offsets\<close>; on nil it takes \<^verbatim>\<open>field.zero\<close> and breaks.\<close>

fun follow :: "heap \<Rightarrow> struct_field \<Rightarrow> pointer \<Rightarrow> next_offset list \<Rightarrow> error + pointer" where
  "follow h field fptr [] = Inr fptr"
| "follow h field fptr (off # rest) =
     (case deref h fptr (derefs off) of
        Inl e \<Rightarrow> Inl e
      | Inr q \<Rightarrow>
          if q = NilPtr then Inr (zero field)
          else (case ptr_add q (offset off) of
                  Inl e \<Rightarrow> Inl e
                | Inr q' \<Rightarrow> follow h field q' rest))"

text \<open>The body of the outer loop: the value that is stored into \<^verbatim>\<open>ifaces[i]\<close>.\<close>

definition extract_field :: "heap \<Rightarrow> pointer \<Rightarrow> struct_field \<Rightarrow> error + val" where
  "extract_field h ptr field =
     (case follow h field ptr (offsets field) of
        Inl e \<Rightarrow> Inl e
      | Inr fptr \<Rightarrow> UnsafeIndirect h (type2 field) fptr)"

fun extract_loop :: "heap \<Rightarrow> pointer \<Rightarrow> nat \<Rightarrow> struct_field list \<Rightarrow> val list \<Rightarrow> error + val list" where
  "extract_loop h ptr i [] ifaces = Inr ifaces"
| "extract_loop h ptr i (field # rest) ifaces =
     (case extract_field h ptr field of
        Inl e \<Rightarrow> Inl e
      | Inr v \<Rightarrow> extract_loop h ptr (Suc i) rest (ifaces[i := v]))"

definition extract_fields :: "heap \<Rightarrow> pointer \<Rightarrow> struct_field list \<Rightarrow> error + val list" where
  "extract_fields h ptr sfields = extract_loop h ptr 0 sfields (replicate (length sfields) VNil)"

subsection \<open>What a path means on a type, and what a record instance is\<close>

text \<open>
  The notions the properties are stated with. \<open>ptr_depth\<close> counts the pointer layers
  around a type and \<open>base_type\<close> is the type below them; \<open>path_type\<close> is the type a path
  of field names leads to, if every name is found by \<^verbatim>\<open>FieldByName\<close> in the struct reached
  before it.
\<close>

fun ptr_depth :: "rtype \<Rightarrow> nat" where
  "ptr_depth (Pointer t) = Suc (ptr_depth t)"
| "ptr_depth t = 0"

fun base_type :: "rtype \<Rightarrow> rtype" where
  "base_type (Pointer t) = base_type t"
| "base_type t = t"

fun path_type :: "lib \<Rightarrow> rtype \<Rightarrow> string list \<Rightarrow> rtype option" where
  "path_type L t [] = Some t"
| "path_type L t (name # names) =
     (if is_struct (base_type t)
      then case reflect_FieldByName L (base_type t) name of
             None \<Rightarrow> None
           | Some (off, ft) \<Rightarrow> path_type L ft names
      else None)"

text \<open>
  Segment \<open>i\<close> of a path is bad when the segments before it lead to a type and the
  segment names a field that is not exported, or that type is not a struct below its
  pointers, or \<^verbatim>\<open>FieldByName\<close> finds no field of that name in the struct.
\<close>

definition bad_segment :: "lib \<Rightarrow> rtype \<Rightarrow> string list \<Rightarrow> nat \<Rightarrow> bool" where
  "bad_segment L t names i =
     (case path_type L t (take i names) of
        None \<Rightarrow> False
      | Some ti \<Rightarrow>
          \<not> is_exported L (names ! i) \<or> \<not> is_struct (base_type ti) \<or>
          reflect_FieldByName L (base_type ti) (names ! i) = None)"

text \<open>
  A path is direct when \<^verbatim>\<open>FieldByName\<close> answers every segment with a field of the struct
  itself: the struct reached has a field of that name with the offset and the type of
  the answer.
  A path through a promoted field is not direct.
\<close>

fun own_field :: "rtype \<Rightarrow> string \<Rightarrow> uintptr \<Rightarrow> rtype \<Rightarrow> bool" where
  "own_field (Struct fs) name off ft =
     list_ex (\<lambda>(name', off', ft', anon). name' = name \<and> off' = off \<and> ft' = ft) fs"
| "own_field t name off ft = False"

fun direct_path :: "lib \<Rightarrow> rtype \<Rightarrow> string list \<Rightarrow> bool" where
  "direct_path L t [] = True"
| "direct_path L t (name # names) =
     (case reflect_FieldByName L (base_type t) name of
        None \<Rightarrow> False
      | Some (off, ft) \<Rightarrow> own_field (base_type t) name off ft \<and> direct_path L ft names)"

text \<open>
  \<open>wt h t p\<close>: in the heap \<open>h\<close> a value of type \<open>t\<close> is stored at \<open>p\<close>. Every scalar cell
  is mapped and holds a value of its kind, every pointer cell is mapped and holds nil
  or a pointer to a value of the element type.
\<close>

fun wt :: "heap \<Rightarrow> rtype \<Rightarrow> pointer \<Rightarrow> bool" where
  "wt h (Basic k) p =
     (case read h p of Inl e \<Rightarrow> False | Inr Zeroed \<Rightarrow> True | Inr (Holds v) \<Rightarrow> has_kind k v)"
| "wt h (Pointer t) p =
     (case read_ptr h p of Inl e \<Rightarrow> False | Inr q \<Rightarrow> q = NilPtr \<or> wt h t q)"
| "wt h (Struct fs) p =
     (case p of
        NilPtr \<Rightarrow> False
      | Ptr b i \<Rightarrow> list_all (\<lambda>(name, off, ft, anon). wt h ft (Ptr b (i + off))) fs)"

text \<open>
  \<open>absent h p offs\<close>: walking the steps \<open>offs\<close> from \<open>p\<close>, the dereferences of some step
  end in nil, and no step before it does.
\<close>

fun absent :: "heap \<Rightarrow> pointer \<Rightarrow> next_offset list \<Rightarrow> bool" where
  "absent h p [] = False"
| "absent h p (off # rest) =
     (case deref h p (derefs off) of
        Inl e \<Rightarrow> False
      | Inr q \<Rightarrow>
          q = NilPtr \<or>
          (case ptr_add q (offset off) of Inl e \<Rightarrow> False | Inr q' \<Rightarrow> absent h q' rest))"

subsection \<open>The canonical encoder\<close>

text \<open>A 64-bit number as eight bytes, the most significant first.\<close>

definition be_bytes :: "64 word \<Rightarrow> string" where
  "be_bytes w = map (\<lambda>i. char_of (unat (drop_bit (8 * i) w))) [7, 6, 5, 4, 3, 2, 1, 0]"

text \<open>
  Modelled from the spec: the byte encodings of the mangler package, whose code is not
  among the translated files. Section 4.2 asks for a fixed-width encoding of numbers,
  a length-prefixed encoding of strings and an encoding of booleans, each a function of
  the logical value alone.
\<close>

fun encode :: "kind \<Rightarrow> val \<Rightarrow> string" where
  "encode KBool v = (case v of VBool b \<Rightarrow> [if b then CHR 0x01 else CHR 0x00] | _ \<Rightarrow> [])"
| "encode KInt v = (case v of VInt i \<Rightarrow> be_bytes i | _ \<Rightarrow> [])"
| "encode KString v = (case v of VString s \<Rightarrow> be_bytes (of_nat (length s)) @ s | _ \<Rightarrow> [])"

text \<open>
  Modelled from the spec: the encoder lookup \<^verbatim>\<open>encoder_for\<close> of section 4.2 (the
  function \<^verbatim>\<open>mangler.Get\<close>, whose code is not among the translated files). It gives the
  encoder of a supported type and fails for every other type.
\<close>

fun encoder_for :: "rtype \<Rightarrow> (val \<Rightarrow> string) option" where
  "encoder_for (Basic k) = Some (encode k)"
| "encoder_for t = None"

subsection \<open>A library instance and the Person scenario\<close>

text \<open>
  An instance of the library parameters to run the functions on. The rune decoder is
  exact on strings that start with an ASCII byte and on the empty string, and answers
  \<^verbatim>\<open>RuneError\<close> for every other string; on the runes it returns, \<open>ascii_IsUpper\<close> is
  \<^verbatim>\<open>unicode.IsUpper\<close>.
\<close>

definition ascii_DecodeRuneInString :: "string \<Rightarrow> nat \<times> nat" where
  "ascii_DecodeRuneInString s =
     (case s of
        [] \<Rightarrow> (65533, 0)
      | c # cs \<Rightarrow> if of_char c < (128::nat) then (of_char c, 1) else (65533, 1))"

definition ascii_IsUpper :: "nat \<Rightarrow> bool" where
  "ascii_IsUpper r = (65 \<le> r \<and> r \<le> 90)"

text \<open>
  \<^verbatim>\<open>FieldByName\<close> as the package reflect answers it. A field of the struct itself is found
  first. Otherwise the fields promoted from embedded structs are searched, one level of
  embedding at a time (an embedded field has the type \<^verbatim>\<open>T\<close> or \<^verbatim>\<open>*T\<close> of a struct): the
  name is found at the shallowest level that has it, and only if that level has it once.
  The \<^verbatim>\<open>Offset\<close> of the answer is the offset of the field in the struct that declares
  it, also for a promoted field.
\<close>

fun embedded_struct :: "string \<times> uintptr \<times> rtype \<times> bool \<Rightarrow> (string \<times> uintptr \<times> rtype \<times> bool) list option" where
  "embedded_struct (name, off, Struct fs, True) = Some fs"
| "embedded_struct (name, off, Pointer (Struct fs), True) = Some fs"
| "embedded_struct f = None"

fun candidates :: "nat \<Rightarrow> (string \<times> uintptr \<times> rtype \<times> bool) list \<Rightarrow> string \<Rightarrow> (uintptr \<times> rtype) list" where
  "candidates 0 fs name =
     map (\<lambda>(name', off, ft, anon). (off, ft)) (filter (\<lambda>(name', off, ft, anon). name' = name) fs)"
| "candidates (Suc d) fs name =
     concat (map (\<lambda>f. case embedded_struct f of None \<Rightarrow> [] | Some fs' \<Rightarrow> candidates d fs' name) fs)"

fun first_unique :: "'a list list \<Rightarrow> 'a option" where
  "first_unique [] = None"
| "first_unique ([] # ls) = first_unique ls"
| "first_unique ([x] # ls) = Some x"
| "first_unique (xs # ls) = None"

text \<open>A bound on the levels of embedding in a type.\<close>

fun embed_depth :: "rtype \<Rightarrow> nat" where
  "embed_depth (Basic k) = 0"
| "embed_depth (Pointer t) = embed_depth t"
| "embed_depth (Struct fs) = Suc (foldr max (map (\<lambda>(name, off, ft, anon). embed_depth ft) fs) 0)"

fun go_FieldByName :: "rtype \<Rightarrow> string \<Rightarrow> (uintptr \<times> rtype) option" where
  "go_FieldByName (Struct fs) name =
     (case map_of fs name of
        Some (off, ft, anon) \<Rightarrow> Some (off, ft)
      | None \<Rightarrow> first_unique (map (\<lambda>d. candidates d fs name) [1..<Suc (embed_depth (Struct fs))]))"
| "go_FieldByName t name = None"

definition go_lib :: lib where
  "go_lib =
     \<lparr>utf8_DecodeRuneInString = ascii_DecodeRuneInString, unicode_IsUpper = ascii_IsUpper,
      reflect_FieldByName = go_FieldByName, mangler_Get = encoder_for\<rparr>"

text \<open>
  The offset at which the field that a name selects in a struct is stored, counted from
  the start of that struct (\<^verbatim>\<open>unsafe.Offsetof\<close>): the offsets of the embedded structs on
  the way are added up. A field reached through an embedded pointer has no such offset.
\<close>

fun located :: "nat \<Rightarrow> uintptr option \<Rightarrow> (string \<times> uintptr \<times> rtype \<times> bool) list \<Rightarrow> string \<Rightarrow> (uintptr option \<times> rtype) list" where
  "located 0 base fs name =
     map (\<lambda>(name', off, ft, anon). (map_option (\<lambda>b. b + off) base, ft))
       (filter (\<lambda>(name', off, ft, anon). name' = name) fs)"
| "located (Suc d) base fs name =
     concat (map (\<lambda>(name', off, ft, anon).
        if anon then
          (case ft of
             Struct fs' \<Rightarrow> located d (map_option (\<lambda>b. b + off) base) fs' name
           | Pointer (Struct fs') \<Rightarrow> located d None fs' name
           | _ \<Rightarrow> [])
        else []) fs)"

fun selector_offset :: "rtype \<Rightarrow> string \<Rightarrow> uintptr option" where
  "selector_offset (Struct fs) name =
     (case first_unique (map (\<lambda>d. located d (Some 0) fs name) [0..<Suc (embed_depth (Struct fs))]) of
        None \<Rightarrow> None
      | Some (off, ft) \<Rightarrow> off)"
| "selector_offset t name = None"

text \<open>
  The scenario of section 8 as Go declares it:
  \<^verbatim>\<open>type Address struct { City string }\<close> and
  \<^verbatim>\<open>type Person struct { Name string; Address *Address }\<close>, a string taking 16 bytes.
\<close>

definition Address :: rtype where
  "Address = Struct [(''City'', 0, Basic KString, False)]"

definition Person :: rtype where
  "Person = Struct [(''Name'', 0, Basic KString, False), (''Address'', 16, Pointer Address, False)]"

text \<open>The same two types with the field names in lower case, as the scenario writes them.\<close>

definition address_lower :: rtype where
  "address_lower = Struct [(''city'', 0, Basic KString, False)]"

definition person_lower :: rtype where
  "person_lower =
     Struct [(''name'', 0, Basic KString, False), (''address'', 16, Pointer address_lower, False)]"

text \<open>
  A heap with two persons: the one in block 1 has no address, the one in block 2 has
  the address in block 3.
\<close>

definition heap0 :: heap where
  "heap0 =
     \<lparr>cells = (\<lambda>b. if b = 1 then [0 \<mapsto> Holds (VString ''Ann''), 16 \<mapsto> Holds (VPtr NilPtr)]
                   else if b = 2 then [0 \<mapsto> Holds (VString ''Bob''), 16 \<mapsto> Holds (VPtr (Ptr 3 0))]
                   else if b = 3 then [0 \<mapsto> Holds (VString ''Berlin'')]
                   else Map.empty),
      next_block = 4\<rparr>"

text \<open>The heap after one string has been allocated, and after a second one.\<close>

definition heap1 :: heap where
  "heap1 = snd (UnsafeNew heap0 (Basic KString))"

definition heap2 :: heap where
  "heap2 = snd (UnsafeNew heap1 (Basic KString))"

text \<open>The descriptors of the paths Address.City of a Person and City of an Address.\<close>

definition person_city :: struct_field where
  "person_city =
     \<lparr>type2 = Basic KString,
      offsets = [\<lparr>derefs = 0, offset = 16\<rparr>, \<lparr>derefs = 1, offset = 0\<rparr>],
      mangle = encode KString, zero = Ptr 4 0,
      zerostr = [CHR 0x00, CHR 0x00, CHR 0x00, CHR 0x00, CHR 0x00, CHR 0x00, CHR 0x00, CHR 0x00]\<rparr>"

definition address_city :: struct_field where
  "address_city =
     \<lparr>type2 = Basic KString,
      offsets = [\<lparr>derefs = 0, offset = 0\<rparr>],
      mangle = encode KString, zero = Ptr 5 0,
      zerostr = [CHR 0x00, CHR 0x00, CHR 0x00, CHR 0x00, CHR 0x00, CHR 0x00, CHR 0x00, CHR 0x00]\<rparr>"


subsection \<open>Record types with embedded structs\<close>

text \<open>
  \<^verbatim>\<open>type Emb struct { Pad string; Address }\<close>: the struct \<^verbatim>\<open>Address\<close> is embedded at offset
  16, and the selector \<^verbatim>\<open>City\<close> of an \<^verbatim>\<open>Emb\<close> is the promoted field \<^verbatim>\<open>Address.City\<close>.
\<close>

definition Emb :: rtype where
  "Emb = Struct [(''Pad'', 0, Basic KString, False), (''Address'', 16, Address, True)]"

text \<open>
  \<^verbatim>\<open>type Inner struct { V string }\<close>, \<^verbatim>\<open>type EmbP struct { X int64; P **Inner }\<close> and
  \<^verbatim>\<open>type Outer struct { A int64; EmbP }\<close>: the selector \<^verbatim>\<open>P\<close> of an \<^verbatim>\<open>Outer\<close> is the
  promoted field \<^verbatim>\<open>EmbP.P\<close>, stored at offset 16 of the \<^verbatim>\<open>Outer\<close>.
\<close>

definition Inner :: rtype where
  "Inner = Struct [(''V'', 0, Basic KString, False)]"

definition EmbP :: rtype where
  "EmbP = Struct [(''X'', 0, Basic KInt, False), (''P'', 8, Pointer (Pointer Inner), False)]"

definition Outer :: rtype where
  "Outer = Struct [(''A'', 0, Basic KInt, False), (''EmbP'', 8, EmbP, True)]"

text \<open>
  A heap with an \<^verbatim>\<open>Emb\<close> in block 1 (\<^verbatim>\<open>Pad\<close> is \<^verbatim>\<open>"PAD"\<close>, \<^verbatim>\<open>City\<close> is \<^verbatim>\<open>"Berlin"\<close>) and an
  \<^verbatim>\<open>Outer\<close> in block 2 (\<^verbatim>\<open>A\<close> is 1, \<^verbatim>\<open>X\<close> is 12345, \<^verbatim>\<open>P\<close> points to block 3, which points
  to the \<^verbatim>\<open>Inner\<close> in block 4), and the heap after one string has been allocated.
\<close>

definition emb_heap :: heap where
  "emb_heap =
     \<lparr>cells = (\<lambda>b. if b = 1 then [0 \<mapsto> Holds (VString ''PAD''), 16 \<mapsto> Holds (VString ''Berlin'')]
                   else if b = 2 then [0 \<mapsto> Holds (VInt 1), 8 \<mapsto> Holds (VInt 12345),
                                       16 \<mapsto> Holds (VPtr (Ptr 3 0))]
                   else if b = 3 then [0 \<mapsto> Holds (VPtr (Ptr 4 0))]
                   else if b = 4 then [0 \<mapsto> Holds (VString ''v'')]
                   else Map.empty),
      next_block = 5\<rparr>"

definition emb_heap1 :: heap where
  "emb_heap1 = snd (UnsafeNew emb_heap (Basic KString))"

text \<open>The descriptors that the paths City of an Emb and P.V of an Outer compile to.\<close>

definition emb_city :: struct_field where
  "emb_city =
     \<lparr>type2 = Basic KString,
      offsets = [\<lparr>derefs = 0, offset = 0\<rparr>],
      mangle = encode KString, zero = Ptr 5 0,
      zerostr = [CHR 0x00, CHR 0x00, CHR 0x00, CHR 0x00, CHR 0x00, CHR 0x00, CHR 0x00, CHR 0x00]\<rparr>"

definition outer_pv :: struct_field where
  "outer_pv =
     \<lparr>type2 = Basic KString,
      offsets = [\<lparr>derefs = 0, offset = 8\<rparr>, \<lparr>derefs = 2, offset = 0\<rparr>],
      mangle = encode KString, zero = Ptr 5 0,
      zerostr = [CHR 0x00, CHR 0x00, CHR 0x00, CHR 0x00, CHR 0x00, CHR 0x00, CHR 0x00, CHR 0x00]\<rparr>"


section \<open>Results for the translation functions\<close>

lemma APIVisToVis_unknown:
  "m \<notin> set (api_visibilities C) \<Longrightarrow> APIVisToVis C m = ''''"
  by (simp add: APIVisToVis_def api_visibilities_def)

lemma APIMarkerNameToMarkerName_unknown:
  "m \<notin> set (api_marker_names C) \<Longrightarrow> APIMarkerNameToMarkerName C m = ''''"
  by (simp add: APIMarkerNameToMarkerName_def api_marker_names_def)

lemma APIFilterActionToFilterAction_unknown:
  "m \<notin> set (api_filter_actions C) \<Longrightarrow> APIFilterActionToFilterAction C m = gtsmodel_FilterActionNone C"
  by (simp add: APIFilterActionToFilterAction_def api_filter_actions_def)

lemma APIVisToVis_known:
  assumes "distinct (api_visibilities C)"
  shows "map (APIVisToVis C) (api_visibilities C) =
           [gtsmodel_VisibilityPublic C, gtsmodel_VisibilityUnlocked C,
            gtsmodel_VisibilityFollowersOnly C, gtsmodel_VisibilityMutualsOnly C,
            gtsmodel_VisibilityDirect C]"
  using assms by (auto simp: APIVisToVis_def api_visibilities_def)

lemma APIMarkerNameToMarkerName_known:
  assumes "distinct (api_marker_names C)"
  shows "map (APIMarkerNameToMarkerName C) (api_marker_names C) =
           [gtsmodel_MarkerNameHome C, gtsmodel_MarkerNameNotifications C]"
  using assms by (auto simp: APIMarkerNameToMarkerName_def api_marker_names_def)

lemma APIFilterActionToFilterAction_known:
  assumes "distinct (api_filter_actions C)"
  shows "map (APIFilterActionToFilterAction C) (api_filter_actions C) =
           [gtsmodel_FilterActionWarn C, gtsmodel_FilterActionHide C]"
  using assms by (auto simp: APIFilterActionToFilterAction_def api_filter_actions_def)

text \<open>
  Claim C8. Each of the three translation functions is a total function of its argument
  alone. Provided the enumerated API constants of a type are pairwise different (which
  the Go compiler demands of the constant cases of a switch), every enumerated API value
  is sent to the domain value written in its case, and every other input is sent to the
  one unknown result of the function: the empty string for \<^verbatim>\<open>APIVisToVis\<close> and
  \<^verbatim>\<open>APIMarkerNameToMarkerName\<close>, \<^verbatim>\<open>FilterActionNone\<close> for \<^verbatim>\<open>APIFilterActionToFilterAction\<close>.
\<close>

theorem translation_functions_total_mapping:
  assumes "distinct (api_visibilities V)"
    and "distinct (api_marker_names M)"
    and "distinct (api_filter_actions F)"
  shows "map (APIVisToVis V) (api_visibilities V) =
           [gtsmodel_VisibilityPublic V, gtsmodel_VisibilityUnlocked V,
            gtsmodel_VisibilityFollowersOnly V, gtsmodel_VisibilityMutualsOnly V,
            gtsmodel_VisibilityDirect V] \<and>
         map (APIMarkerNameToMarkerName M) (api_marker_names M) =
           [gtsmodel_MarkerNameHome M, gtsmodel_MarkerNameNotifications M] \<and>
         map (APIFilterActionToFilterAction F) (api_filter_actions F) =
           [gtsmodel_FilterActionWarn F, gtsmodel_FilterActionHide F] \<and>
         (v \<notin> set (api_visibilities V) \<longrightarrow> APIVisToVis V v = '''') \<and>
         (m \<notin> set (api_marker_names M) \<longrightarrow> APIMarkerNameToMarkerName M m = '''') \<and>
         (f \<notin> set (api_filter_actions F) \<longrightarrow>
            APIFilterActionToFilterAction F f = gtsmodel_FilterActionNone F)"
  using assms
  by (simp add: APIVisToVis_known APIMarkerNameToMarkerName_known
      APIFilterActionToFilterAction_known APIVisToVis_unknown
      APIMarkerNameToMarkerName_unknown APIFilterActionToFilterAction_unknown)

theorem translation_functions_total_mapping_witness:
  "distinct (api_visibilities example_vis) \<and>
   distinct (api_marker_names example_marker) \<and>
   distinct (api_filter_actions example_filter) \<and>
   map (APIVisToVis example_vis) [''public'', ''unlisted'', ''private'', ''mutuals_only'', ''direct''] =
     [''public'', ''unlocked'', ''followers_only'', ''mutuals_only'', ''direct''] \<and>
   map (APIMarkerNameToMarkerName example_marker) [''home'', ''notifications''] =
     [''home'', ''notifications''] \<and>
   map (APIFilterActionToFilterAction example_filter) [''warn'', ''hide''] = [1, 2] \<and>
   ''limited'' \<notin> set (api_visibilities example_vis) \<and>
   APIVisToVis example_vis ''limited'' = '''' \<and>
   ''favourites'' \<notin> set (api_marker_names example_marker) \<and>
   APIMarkerNameToMarkerName example_marker ''favourites'' = '''' \<and>
   ''blur'' \<notin> set (api_filter_actions example_filter) \<and>
   APIFilterActionToFilterAction example_filter ''blur'' = 0"
proof -
  have l: "api_visibilities example_vis = [''public'', ''unlisted'', ''private'', ''mutuals_only'', ''direct'']"
    "api_marker_names example_marker = [''home'', ''notifications'']"
    "api_filter_actions example_filter = [''warn'', ''hide'']"
    by (simp_all add: api_visibilities_def api_marker_names_def api_filter_actions_def
        example_vis_def example_marker_def example_filter_def)
  have d: "distinct (api_visibilities example_vis)"
    "distinct (api_marker_names example_marker)"
    "distinct (api_filter_actions example_filter)"
    by (simp_all add: l)
  have n: "''limited'' \<notin> set (api_visibilities example_vis)"
    "''favourites'' \<notin> set (api_marker_names example_marker)"
    "''blur'' \<notin> set (api_filter_actions example_filter)"
    by (simp_all add: l)
  have r: "gtsmodel_VisibilityPublic example_vis = ''public''"
    "gtsmodel_VisibilityUnlocked example_vis = ''unlocked''"
    "gtsmodel_VisibilityFollowersOnly example_vis = ''followers_only''"
    "gtsmodel_VisibilityMutualsOnly example_vis = ''mutuals_only''"
    "gtsmodel_VisibilityDirect example_vis = ''direct''"
    "gtsmodel_MarkerNameHome example_marker = ''home''"
    "gtsmodel_MarkerNameNotifications example_marker = ''notifications''"
    "gtsmodel_FilterActionWarn example_filter = 1"
    "gtsmodel_FilterActionHide example_filter = 2"
    "gtsmodel_FilterActionNone example_filter = 0"
    by (simp_all add: example_vis_def example_marker_def example_filter_def)
  from translation_functions_total_mapping [OF d, of "''limited''" "''favourites''" "''blur''"]
  have "map (APIVisToVis example_vis) (api_visibilities example_vis) =
          [''public'', ''unlocked'', ''followers_only'', ''mutuals_only'', ''direct''] \<and>
        map (APIMarkerNameToMarkerName example_marker) (api_marker_names example_marker) =
          [''home'', ''notifications''] \<and>
        map (APIFilterActionToFilterAction example_filter) (api_filter_actions example_filter) = [1, 2] \<and>
        APIVisToVis example_vis ''limited'' = '''' \<and>
        APIMarkerNameToMarkerName example_marker ''favourites'' = '''' \<and>
        APIFilterActionToFilterAction example_filter ''blur'' = 0"
    using n unfolding r by blast
  then show ?thesis
    using d n unfolding l by blast
qed


section \<open>Results for \<^verbatim>\<open>getS3Config\<close>\<close>

text \<open>
  What the function does to a configuration that is not nil: seven fields of the result
  are those of the input, with the two sizes adjusted; the caller's struct is left with
  the adjusted sizes and is otherwise unchanged.
\<close>

lemma getS3Config_result:
  "snd (getS3Config (Some c)) =
     \<lparr>CoreOpts = CoreOpts c, GetOpts = GetOpts c, PutOpts = PutOpts c,
      PutChunkSize = (if PutChunkSize c \<le>s minChunkSz then minChunkSz else PutChunkSize c),
      PutChunkOpts = 0, StatOpts = StatOpts c, RemoveOpts = RemoveOpts c,
      ListSize = (if ListSize c \<le>s 0 then 200 else ListSize c)\<rparr>"
  by (simp add: getS3Config_def Let_def)

lemma getS3Config_caller:
  "fst (getS3Config (Some c)) =
     Some (c\<lparr>PutChunkSize := (if PutChunkSize c \<le>s minChunkSz then minChunkSz else PutChunkSize c),
             ListSize := (if ListSize c \<le>s 0 then 200 else ListSize c)\<rparr>)"
  by (simp add: getS3Config_def Let_def)

text \<open>
  Claim C10 says that the returned configuration agrees with the input on
  \<^verbatim>\<open>PutChunkOpts\<close>, among the other option structs. It does not: for the configuration
  \<open>example_cfg\<close>, whose \<^verbatim>\<open>PutChunkOpts\<close> is not the zero value, the result carries the
  zero value, while the other five option structs are those of the input and the chunk
  size of 8 MiB and the list size of 50 are kept.
\<close>

theorem getS3Config_resets_PutChunkOpts:
  "PutChunkOpts example_cfg = 4 \<and>
   snd (getS3Config (Some example_cfg)) = example_cfg\<lparr>PutChunkOpts := 0\<rparr>"
  by (simp add: getS3Config_result example_cfg_def minChunkSz_def word_sle_eq)


section \<open>Results for the struct field descriptors\<close>

subsection \<open>Memory\<close>

lemma sequence_cong_Inr:
  "(\<And>x. x \<in> set xs \<Longrightarrow> g x = Inr (f x)) \<Longrightarrow> sequence (map g xs) = Inr (map f xs)"
  by (induction xs) auto


lemma UnsafeIndirect_zeroed:
  "(\<And>i. i \<in> set (cell_offsets t base) \<Longrightarrow> cells h b i = Some Zeroed) \<Longrightarrow>
   UnsafeIndirect h t (Ptr b base) = Inr (zero_val t)"
proof (induction t base rule: cell_offsets.induct)
  case (1 k base)
  then show ?case by simp
next
  case (2 t base)
  then show ?case by (simp add: read_ptr_def)
next
  case (3 fs base)
  have "sequence (map (\<lambda>(name, off, ft, anon). UnsafeIndirect h ft (Ptr b (base + off))) fs) =
        Inr (map (\<lambda>(name, off, ft, anon). zero_val ft) fs)"
  proof (rule sequence_cong_Inr)
    fix x assume x: "x \<in> set fs"
    obtain name off ft anon where eq: "x = (name, off, ft, anon)" by (cases x) auto
    with x have xin: "(name, off, ft, anon) \<in> set fs" by simp
    have "UnsafeIndirect h ft (Ptr b (base + off)) = Inr (zero_val ft)"
    proof (rule "3.IH" [OF xin refl refl refl])
      fix i assume "i \<in> set (cell_offsets ft (base + off))"
      then have "i \<in> set (cell_offsets (Struct fs) base)" using x eq by force
      then show "cells h b i = Some Zeroed" by (rule "3.prems")
    qed
    then show "(case x of (name, off, ft, anon) \<Rightarrow> UnsafeIndirect h ft (Ptr b (base + off))) =
               Inr (case x of (name, off, ft, anon) \<Rightarrow> zero_val ft)"
      by (simp add: eq)
  qed
  then show ?case by simp
qed

lemma UnsafeNew_zero:
  "UnsafeNew h t = (z, h') \<Longrightarrow> UnsafeIndirect h' t z = Inr (zero_val t)"
  by (auto simp: UnsafeNew_def Let_def intro!: UnsafeIndirect_zeroed)

text \<open>
  A value is read from the cells of one block, and an allocation changes no block but
  the new one: an object that was there before an allocation reads the same after it.
\<close>

lemma UnsafeIndirect_block:
  "cells h b = cells h' b \<Longrightarrow> UnsafeIndirect h t (Ptr b base) = UnsafeIndirect h' t (Ptr b base)"
proof (induction t base rule: cell_offsets.induct)
  case (1 k base)
  then show ?case by simp
next
  case (2 t base)
  then show ?case by (simp add: read_ptr_def)
next
  case (3 fs base)
  have "map (\<lambda>(name, off, ft, anon). UnsafeIndirect h ft (Ptr b (base + off))) fs =
        map (\<lambda>(name, off, ft, anon). UnsafeIndirect h' ft (Ptr b (base + off))) fs"
  proof (rule map_cong [OF refl])
    fix x assume x: "x \<in> set fs"
    obtain name off ft anon where eq: "x = (name, off, ft, anon)" by (cases x) auto
    with x have xin: "(name, off, ft, anon) \<in> set fs" by simp
    have "UnsafeIndirect h ft (Ptr b (base + off)) = UnsafeIndirect h' ft (Ptr b (base + off))"
      using "3.IH" [OF xin refl refl refl] "3.prems" by simp
    then show "(case x of (name, off, ft, anon) \<Rightarrow> UnsafeIndirect h ft (Ptr b (base + off))) =
               (case x of (name, off, ft, anon) \<Rightarrow> UnsafeIndirect h' ft (Ptr b (base + off)))"
      by (simp add: eq)
  qed
  then show ?case by (simp only: UnsafeIndirect.simps pointer.case)
qed

lemma UnsafeNew_keeps_objects:
  "UnsafeNew h t = (z, h') \<Longrightarrow> b < next_block h \<Longrightarrow>
   UnsafeIndirect h' t' (Ptr b i) = UnsafeIndirect h t' (Ptr b i)"
  by (rule UnsafeIndirect_block) (auto simp: UnsafeNew_def Let_def)



subsection \<open>Compilation of a path\<close>

lemma strip_pointers_eq: "strip_pointers t n = (base_type t, n + ptr_depth t)"
  by (induction t n rule: strip_pointers.induct) auto

lemma find_offsets_acc:
  "find_offsets L t names acc =
     (case find_offsets L t names [] of
        Inl e \<Rightarrow> Inl e
      | Inr (offs, leaf) \<Rightarrow> Inr (acc @ offs, leaf))"
proof (induction names arbitrary: t acc)
  case Nil
  then show ?case by simp
next
  case (Cons name names)
  show ?case
    by (simp add: strip_pointers_eq Cons.IH [of _ "acc @ _"] Cons.IH [of _ "[_]"]
        split: option.splits sum.splits prod.splits)
qed

lemma find_offsets_Cons:
  "find_offsets L t (name # names) [] =
     (if \<not> is_exported L name then Inl (FieldNotExported name)
      else if \<not> is_struct (base_type t) then Inl (NotStruct (base_type t) name)
      else case reflect_FieldByName L (base_type t) name of
             None \<Rightarrow> Inl (UnknownField name)
           | Some (off, ft) \<Rightarrow>
               (case find_offsets L ft names [] of
                  Inl e \<Rightarrow> Inl e
                | Inr (offs, leaf) \<Rightarrow> Inr (\<lparr>derefs = ptr_depth t, offset = off\<rparr> # offs, leaf)))"
  by (simp add: strip_pointers_eq find_offsets_acc [of _ _ _ "[_]"]
      split: option.splits sum.splits prod.splits)

declare find_offsets.simps(2) [simp del]

lemma find_offsets_length:
  "find_offsets L t names [] = Inr (offs, leaf) \<Longrightarrow> length offs = length names"
proof (induction names arbitrary: t offs)
  case Nil
  then show ?case by simp
next
  case (Cons name names)
  then show ?case
    by (auto simp: find_offsets_Cons split: if_splits option.splits sum.splits prod.splits)
qed

lemma find_offsets_path_type:
  "find_offsets L t names [] = Inr (offs, leaf) \<Longrightarrow> path_type L t names = Some leaf"
proof (induction names arbitrary: t offs)
  case Nil
  then show ?case by simp
next
  case (Cons name names)
  then show ?case
    by (auto simp: find_offsets_Cons split: if_splits option.splits sum.splits prod.splits)
qed

lemma find_field_Inr:
  "find_field L h t names = Inr (sf, h') \<longleftrightarrow>
     (\<exists>offs leaf m. find_offsets L t names [] = Inr (offs, leaf) \<and> mangler_Get L leaf = Some m \<and>
        sf = \<lparr>type2 = leaf, offsets = offs, mangle = m, zero = fst (UnsafeNew h leaf),
              zerostr = m (zero_val leaf)\<rparr> \<and>
        h' = snd (UnsafeNew h leaf))"
proof (cases "find_offsets L t names []")
  case (Inl e)
  then show ?thesis by (simp add: find_field_def)
next
  case (Inr r)
  obtain offs leaf where r: "r = (offs, leaf)" by (cases r) auto
  obtain z h1 where new: "UnsafeNew h leaf = (z, h1)" by (cases "UnsafeNew h leaf") auto
  from UnsafeNew_zero [OF new] have ind: "UnsafeIndirect h1 leaf z = Inr (zero_val leaf)" .
  show ?thesis
    using Inr r new ind by (cases "mangler_Get L leaf") (auto simp: find_field_def)
qed

lemma bad_segment_0:
  "bad_segment L t (name # names) 0 \<longleftrightarrow>
     \<not> is_exported L name \<or> \<not> is_struct (base_type t) \<or>
     reflect_FieldByName L (base_type t) name = None"
  by (simp add: bad_segment_def)

lemma bad_segment_Suc:
  "bad_segment L t (name # names) (Suc i) \<longleftrightarrow>
     (if is_struct (base_type t)
      then case reflect_FieldByName L (base_type t) name of
             None \<Rightarrow> False
           | Some (off, ft) \<Rightarrow> bad_segment L ft names i
      else False)"
  by (simp add: bad_segment_def split: option.splits)

lemma ex_less_Suc: "(\<exists>i<Suc n. P i) \<longleftrightarrow> P 0 \<or> (\<exists>i<n. P (Suc i))"
  by (metis less_Suc_eq_0_disj)

lemma all_less_Suc: "(\<forall>i<Suc n. P i) \<longleftrightarrow> P 0 \<and> (\<forall>i<n. P (Suc i))"
  by (metis less_Suc_eq_0_disj)

lemma find_offsets_fails_iff:
  "(\<exists>e. find_offsets L t names [] = Inl e) \<longleftrightarrow> (\<exists>i<length names. bad_segment L t names i)"
proof (induction names arbitrary: t)
  case Nil
  then show ?case by simp
next
  case (Cons name names)
  show ?case
  proof (cases "reflect_FieldByName L (base_type t) name")
    case None
    then show ?thesis
      by (auto simp: find_offsets_Cons ex_less_Suc bad_segment_0)
  next
    case (Some r)
    obtain off ft where r: "r = (off, ft)" by (cases r) auto
    show ?thesis
    proof (cases "is_struct (base_type t)")
      case False
      then show ?thesis
        by (auto simp: find_offsets_Cons ex_less_Suc bad_segment_0)
    next
      case st: True
      have "(\<exists>e. find_offsets L t (name # names) [] = Inl e) \<longleftrightarrow>
            \<not> is_exported L name \<or> (\<exists>e. find_offsets L ft names [] = Inl e)"
        using Some r st by (auto simp: find_offsets_Cons split: sum.splits)
      also have "\<dots> \<longleftrightarrow> \<not> is_exported L name \<or> (\<exists>i<length names. bad_segment L ft names i)"
        by (simp add: Cons.IH)
      also have "\<dots> \<longleftrightarrow> (\<exists>i<length (name # names). bad_segment L t (name # names) i)"
        using Some r st by (simp add: ex_less_Suc bad_segment_0 bad_segment_Suc)
      finally show ?thesis .
    qed
  qed
qed

lemma find_offsets_error_kind:
  "find_offsets L t names [] = Inl e \<Longrightarrow>
   (\<exists>name \<in> set names. e = FieldNotExported name \<or> e = UnknownField name \<or> (\<exists>t'. e = NotStruct t' name))"
proof (induction names arbitrary: t)
  case Nil
  then show ?case by simp
next
  case (Cons name names)
  then show ?case
    by (auto simp: find_offsets_Cons split: if_splits option.splits sum.splits prod.splits)
qed

lemma find_field_Inl:
  "find_field L h t names = Inl e \<longleftrightarrow>
     find_offsets L t names [] = Inl e \<or>
     (\<exists>offs leaf. find_offsets L t names [] = Inr (offs, leaf) \<and> mangler_Get L leaf = None \<and>
        e = CannotMangle leaf)"
proof (cases "find_offsets L t names []")
  case (Inl e')
  then show ?thesis by (simp add: find_field_def)
next
  case (Inr r)
  obtain offs leaf where r: "r = (offs, leaf)" by (cases r) auto
  obtain z h1 where new: "UnsafeNew h leaf = (z, h1)" by (cases "UnsafeNew h leaf") auto
  from UnsafeNew_zero [OF new] have ind: "UnsafeIndirect h1 leaf z = Inr (zero_val leaf)" .
  show ?thesis
    using Inr r new ind by (cases "mangler_Get L leaf") (auto simp: find_field_def)
qed

lemma find_offsets_steps:
  "find_offsets L t names [] = Inr (offs, leaf) \<Longrightarrow>
   (\<forall>i<length names. \<exists>ti ft.
       path_type L t (take i names) = Some ti \<and>
       derefs (offs ! i) = ptr_depth ti \<and>
       is_struct (base_type ti) \<and>
       reflect_FieldByName L (base_type ti) (names ! i) = Some (offset (offs ! i), ft) \<and>
       path_type L t (take (Suc i) names) = Some ft)"
proof (induction names arbitrary: t offs)
  case Nil
  then show ?case by simp
next
  case (Cons name names)
  from Cons.prems obtain off ft rest where
    st: "is_struct (base_type t)" and
    fld: "reflect_FieldByName L (base_type t) name = Some (off, ft)" and
    rest: "find_offsets L ft names [] = Inr (rest, leaf)" and
    offs: "offs = \<lparr>derefs = ptr_depth t, offset = off\<rparr> # rest"
    by (auto simp: find_offsets_Cons split: if_splits option.splits sum.splits prod.splits)
  show ?case
    unfolding length_Cons all_less_Suc
  proof (intro conjI allI impI)
    show "\<exists>ti fta. path_type L t (take 0 (name # names)) = Some ti \<and>
       derefs (offs ! 0) = ptr_depth ti \<and> is_struct (base_type ti) \<and>
       reflect_FieldByName L (base_type ti) ((name # names) ! 0) = Some (offset (offs ! 0), fta) \<and>
       path_type L t (take (Suc 0) (name # names)) = Some fta"
      using st fld offs by simp
  next
    fix i assume "i < length names"
    with Cons.IH [OF rest] obtain ti ft' where
      "path_type L ft (take i names) = Some ti" "derefs (rest ! i) = ptr_depth ti"
      "is_struct (base_type ti)"
      "reflect_FieldByName L (base_type ti) (names ! i) = Some (offset (rest ! i), ft')"
      "path_type L ft (take (Suc i) names) = Some ft'"
      by blast
    then show "\<exists>ti fta. path_type L t (take (Suc i) (name # names)) = Some ti \<and>
       derefs (offs ! Suc i) = ptr_depth ti \<and> is_struct (base_type ti) \<and>
       reflect_FieldByName L (base_type ti) ((name # names) ! Suc i) = Some (offset (offs ! Suc i), fta) \<and>
       path_type L t (take (Suc (Suc i)) (name # names)) = Some fta"
      using st fld offs by simp
  qed
qed

text \<open>
  On a direct path every step carries the offset of a field of the struct reached.
\<close>

lemma find_offsets_direct_steps:
  "find_offsets L t names [] = Inr (offs, leaf) \<Longrightarrow> direct_path L t names \<Longrightarrow>
   (\<forall>i<length names. \<exists>ti ft.
       path_type L t (take i names) = Some ti \<and>
       derefs (offs ! i) = ptr_depth ti \<and>
       own_field (base_type ti) (names ! i) (offset (offs ! i)) ft)"
proof (induction names arbitrary: t offs)
  case Nil
  then show ?case by simp
next
  case (Cons name names)
  from Cons.prems(1) obtain off ft rest where
    st: "is_struct (base_type t)" and
    fld: "reflect_FieldByName L (base_type t) name = Some (off, ft)" and
    rest: "find_offsets L ft names [] = Inr (rest, leaf)" and
    offs: "offs = \<lparr>derefs = ptr_depth t, offset = off\<rparr> # rest"
    by (auto simp: find_offsets_Cons split: if_splits option.splits sum.splits prod.splits)
  from Cons.prems(2) fld have own: "own_field (base_type t) name off ft"
    and direct: "direct_path L ft names"
    by simp_all
  show ?case
    unfolding length_Cons all_less_Suc
  proof (intro conjI allI impI)
    show "\<exists>ti fta. path_type L t (take 0 (name # names)) = Some ti \<and>
       derefs (offs ! 0) = ptr_depth ti \<and>
       own_field (base_type ti) ((name # names) ! 0) (offset (offs ! 0)) fta"
      using own offs by auto
  next
    fix i assume "i < length names"
    with Cons.IH [OF rest direct] obtain ti ft' where
      "path_type L ft (take i names) = Some ti" "derefs (rest ! i) = ptr_depth ti"
      "own_field (base_type ti) (names ! i) (offset (rest ! i)) ft'"
      by blast
    then show "\<exists>ti fta. path_type L t (take (Suc i) (name # names)) = Some ti \<and>
       derefs (offs ! Suc i) = ptr_depth ti \<and>
       own_field (base_type ti) ((name # names) ! Suc i) (offset (offs ! Suc i)) fta"
      using st fld offs by auto
  qed
qed

text \<open>
  Compiling a further path leaves the zero objects of the descriptors compiled before
  as they are.
\<close>

lemma find_field_keeps_objects:
  "find_field L h t names = Inr (sf, h') \<Longrightarrow> b < next_block h \<Longrightarrow>
   UnsafeIndirect h' t' (Ptr b i) = UnsafeIndirect h t' (Ptr b i)"
proof -
  assume "find_field L h t names = Inr (sf, h')" and b: "b < next_block h"
  then obtain leaf where "h' = snd (UnsafeNew h leaf)"
    by (auto simp: find_field_Inr)
  then have "UnsafeNew h leaf = (fst (UnsafeNew h leaf), h')" by simp
  from UnsafeNew_keeps_objects [OF this b] show ?thesis .
qed

lemma find_field_zero_block:
  "find_field L h t names = Inr (sf, h') \<Longrightarrow>
   zero sf = Ptr (next_block h) 0 \<and> next_block h' = Suc (next_block h)"
  by (auto simp: find_field_Inr UnsafeNew_def Let_def)

subsection \<open>Following the steps of a descriptor\<close>

lemma deref_nil: "deref h NilPtr n = Inr NilPtr"
  by (cases n) auto



lemma follow_absent: "absent h p offs \<Longrightarrow> follow h sf p offs = Inr (zero sf)"
  by (induction offs arbitrary: p) (auto split: sum.splits)


lemma absent_nil: "offs \<noteq> [] \<Longrightarrow> absent h NilPtr offs"
  by (cases offs) (auto simp: deref_nil)

lemma extract_field_absent:
  "absent h p (offsets sf) \<Longrightarrow> extract_field h p sf = UnsafeIndirect h (type2 sf) (zero sf)"
  by (simp add: extract_field_def follow_absent)



lemma extract_loop_eq:
  "i + length fs \<le> length ifaces \<Longrightarrow>
   extract_loop h p i fs ifaces =
     (case sequence (map (extract_field h p) fs) of
        Inl e \<Rightarrow> Inl e
      | Inr vs \<Rightarrow> Inr (take i ifaces @ vs @ drop (i + length fs) ifaces))"
proof (induction fs arbitrary: i ifaces)
  case Nil
  then show ?case by simp
next
  case (Cons f fs)
  show ?case
  proof (cases "extract_field h p f")
    case (Inl e)
    then show ?thesis by simp
  next
    case (Inr v)
    have len: "Suc i + length fs \<le> length (ifaces[i := v])" using Cons.prems by simp
    have "take (Suc i) (ifaces[i := v]) = take i ifaces @ [v]"
      using Cons.prems by (simp add: take_Suc_conv_app_nth)
    then show ?thesis
      using Inr Cons.IH [OF len] by (simp split: sum.splits)
  qed
qed


lemma extract_fields_eq:
  "extract_fields h p fs = sequence (map (extract_field h p) fs)"
  by (simp add: extract_fields_def extract_loop_eq split: sum.splits)





subsection \<open>The scenarios, evaluated\<close>

lemma is_exported_go_lib:
  "is_exported go_lib (c # cs) = (of_char c < (128::nat) \<and> 65 \<le> (of_char c :: nat) \<and> (of_char c :: nat) \<le> 90)"
  by (simp add: is_exported_def go_lib_def ascii_DecodeRuneInString_def ascii_IsUpper_def)

lemma be_bytes_0: "be_bytes 0 = [CHR 0x00, CHR 0x00, CHR 0x00, CHR 0x00, CHR 0x00, CHR 0x00, CHR 0x00, CHR 0x00]"
  by code_simp

lemma mangler_Get_go_lib: "mangler_Get go_lib = encoder_for"
  by (simp add: go_lib_def)

lemma reflect_go_lib: "reflect_FieldByName go_lib = go_FieldByName"
  by (simp add: go_lib_def)

lemma find_offsets_person_city:
  "find_offsets go_lib Person [''Address'', ''City''] [] =
     Inr ([\<lparr>derefs = 0, offset = 16\<rparr>, \<lparr>derefs = 1, offset = 0\<rparr>], Basic KString)"
  by (simp add: find_offsets_Cons is_exported_go_lib reflect_go_lib Person_def Address_def)


lemma find_offsets_address_city:
  "find_offsets go_lib Address [''City''] [] = Inr ([\<lparr>derefs = 0, offset = 0\<rparr>], Basic KString)"
  by (simp add: find_offsets_Cons is_exported_go_lib reflect_go_lib Address_def)

lemma find_field_person_city:
  "find_field go_lib heap0 Person [''Address'', ''City''] = Inr (person_city, heap1)"
  by (simp add: find_field_Inr find_offsets_person_city mangler_Get_go_lib person_city_def heap1_def
      UnsafeNew_def heap0_def be_bytes_0)


lemma find_field_address_city:
  "find_field go_lib heap1 Address [''City''] = Inr (address_city, heap2)"
  by (simp add: find_field_Inr find_offsets_address_city mangler_Get_go_lib address_city_def
      heap2_def heap1_def UnsafeNew_def heap0_def be_bytes_0)

lemma find_field_country:
  "find_field go_lib heap0 Person [''Address'', ''Country''] = Inl (UnknownField ''Country'')"
  by (simp add: find_field_Inl find_offsets_Cons is_exported_go_lib reflect_go_lib Person_def
      Address_def)

lemma path_type_person_city: "path_type go_lib Person [''Address'', ''City''] = Some (Basic KString)"
  by (simp add: reflect_go_lib Person_def Address_def)

lemma path_type_person_country: "path_type go_lib Person [''Address'', ''Country''] = None"
  by (simp add: reflect_go_lib Person_def Address_def)



lemma cells_heap1:
  "cells heap1 = (cells heap0)(4 := (\<lambda>i. if i = 0 then Some Zeroed else None))"
  by (simp add: heap1_def UnsafeNew_def heap0_def)

lemma cells_heap2:
  "cells heap2 = (cells heap0)(4 := (\<lambda>i. if i = 0 then Some Zeroed else None),
                              5 := (\<lambda>i. if i = 0 then Some Zeroed else None))"
  by (simp add: heap2_def heap1_def UnsafeNew_def heap0_def)

lemma zero_person_city:
  "UnsafeIndirect heap1 (Basic KString) (Ptr 4 0) = Inr (VString '''')"
  by (simp add: cells_heap1)

lemma zero_heap2:
  "UnsafeIndirect heap2 (Basic KString) (Ptr 4 0) = Inr (VString '''')"
  "UnsafeIndirect heap2 (Basic KString) (Ptr 5 0) = Inr (VString '''')"
  by (simp_all add: cells_heap2)

lemma wt_ann: "wt heap1 Person (Ptr 1 0)"
  by (simp add: cells_heap1 heap0_def Person_def Address_def read_ptr_def)


lemma absent_ann: "absent heap1 (Ptr 1 0) (offsets person_city)"
  by (simp add: person_city_def cells_heap1 heap0_def read_ptr_def)

lemma extract_ann: "extract_field heap1 (Ptr 1 0) person_city = Inr (VString '''')"
  by (simp add: extract_field_def person_city_def cells_heap1 heap0_def read_ptr_def)



text \<open>The record types with embedded structs.\<close>

lemma go_FieldByName_Emb_City: "go_FieldByName Emb ''City'' = Some (0, Basic KString)"
  by code_simp

lemma go_FieldByName_Outer_P: "go_FieldByName Outer ''P'' = Some (8, Pointer (Pointer Inner))"
  by code_simp

lemma go_FieldByName_Inner_V: "go_FieldByName Inner ''V'' = Some (0, Basic KString)"
  by code_simp

lemma selector_offset_Emb_City: "selector_offset Emb ''City'' = Some 16"
  by code_simp

lemma selector_offset_Outer_P: "selector_offset Outer ''P'' = Some 16"
  by code_simp

lemma struct_examples:
  "base_type Emb = Emb" "is_struct Emb" "base_type Outer = Outer" "is_struct Outer"
  "base_type Inner = Inner" "is_struct Inner"
  "ptr_depth Emb = 0" "ptr_depth Outer = 0" "ptr_depth Inner = 0"
  by (simp_all add: Emb_def Outer_def Inner_def)

lemma find_offsets_emb_city:
  "find_offsets go_lib Emb [''City''] [] = Inr ([\<lparr>derefs = 0, offset = 0\<rparr>], Basic KString)"
  by (simp add: find_offsets_Cons is_exported_go_lib reflect_go_lib struct_examples
      go_FieldByName_Emb_City)

lemma find_offsets_outer_pv:
  "find_offsets go_lib Outer [''P'', ''V''] [] =
     Inr ([\<lparr>derefs = 0, offset = 8\<rparr>, \<lparr>derefs = 2, offset = 0\<rparr>], Basic KString)"
  by (simp add: find_offsets_Cons is_exported_go_lib reflect_go_lib struct_examples
      go_FieldByName_Outer_P go_FieldByName_Inner_V numeral_2_eq_2)

lemma find_field_emb_city:
  "find_field go_lib emb_heap Emb [''City''] = Inr (emb_city, emb_heap1)"
  by (simp add: find_field_Inr find_offsets_emb_city mangler_Get_go_lib emb_city_def emb_heap1_def
      UnsafeNew_def emb_heap_def be_bytes_0)

lemma find_field_outer_pv:
  "find_field go_lib emb_heap Outer [''P'', ''V''] = Inr (outer_pv, emb_heap1)"
  by (simp add: find_field_Inr find_offsets_outer_pv mangler_Get_go_lib outer_pv_def emb_heap1_def
      UnsafeNew_def emb_heap_def be_bytes_0)

lemma path_type_emb_city: "path_type go_lib Emb [''City''] = Some (Basic KString)"
  by (simp add: reflect_go_lib struct_examples go_FieldByName_Emb_City)

lemma cells_emb_heap1:
  "cells emb_heap1 = (cells emb_heap)(5 := (\<lambda>i. if i = 0 then Some Zeroed else None))"
  by (simp add: emb_heap1_def UnsafeNew_def emb_heap_def)

lemma zero_emb_heap1:
  "UnsafeIndirect emb_heap1 (Basic KString) (Ptr 5 0) = Inr (VString '''')"
  by (simp add: cells_emb_heap1)

lemma wt_emb: "wt emb_heap1 Emb (Ptr 1 0)"
  by (simp add: cells_emb_heap1 emb_heap_def Emb_def Address_def)

lemma wt_outer: "wt emb_heap1 Outer (Ptr 2 0)"
  by (simp add: cells_emb_heap1 emb_heap_def Outer_def EmbP_def Inner_def read_ptr_def)

lemma value_emb:
  "UnsafeIndirect emb_heap1 Emb (Ptr 1 0) = Inr (VStruct [VString ''PAD'', VStruct [VString ''Berlin'']])"
  by (simp add: cells_emb_heap1 emb_heap_def Emb_def Address_def)

lemma city_of_emb:
  "UnsafeIndirect emb_heap1 (Basic KString) (Ptr 1 16) = Inr (VString ''Berlin'')"
  by (simp add: cells_emb_heap1 emb_heap_def)

lemma extract_emb_city: "extract_field emb_heap1 (Ptr 1 0) emb_city = Inr (VString ''PAD'')"
  by (simp add: extract_field_def emb_city_def cells_emb_heap1 emb_heap_def)

lemma extract_outer_pv: "extract_field emb_heap1 (Ptr 2 0) outer_pv = Inl (BadCell (Ptr 2 8))"
  by code_simp

lemma value_of_outer_pv:
  "deref emb_heap1 (Ptr 2 16) 2 = Inr (Ptr 4 0)"
  "UnsafeIndirect emb_heap1 (Basic KString) (Ptr 4 0) = Inr (VString ''v'')"
  by code_simp+


section \<open>The claims about the path compiler\<close>

text \<open>
  Claim C2. For every record type and field path that \<^verbatim>\<open>find_field\<close> accepts, the cached
  zero encoding \<^verbatim>\<open>zerostr\<close> of the descriptor is the descriptor's mangler applied to the
  descriptor's zero value, that is, to the value found at its pointer \<^verbatim>\<open>zero\<close> in the
  heap that compilation leaves; that value is the zero value of the leaf type.
\<close>

theorem zero_encoding_is_encoded_zero:
  assumes "find_field L h t names = Inr (sf, h')"
  shows "UnsafeIndirect h' (type2 sf) (zero sf) = Inr (zero_val (type2 sf)) \<and>
         zerostr sf = mangle sf (zero_val (type2 sf))"
proof -
  from assms obtain leaf where
    sf: "type2 sf = leaf" "zero sf = fst (UnsafeNew h leaf)" "h' = snd (UnsafeNew h leaf)"
        "zerostr sf = mangle sf (zero_val leaf)"
    by (auto simp: find_field_Inr)
  have "UnsafeIndirect h' leaf (zero sf) = Inr (zero_val leaf)"
    by (rule UnsafeNew_zero) (simp add: sf)
  then show ?thesis by (simp add: sf)
qed

theorem zero_encoding_is_encoded_zero_witness:
  "find_field go_lib heap0 Person [''Address'', ''City''] = Inr (person_city, heap1) \<and>
   UnsafeIndirect heap1 (type2 person_city) (zero person_city) = Inr (VString '''') \<and>
   zerostr person_city = mangle person_city (VString '''')"
  using zero_encoding_is_encoded_zero [OF find_field_person_city] find_field_person_city
  by (simp add: person_city_def)

text \<open>
  Claim C3. Provided the leaf type that the path leads to (if it leads to one) has a
  mangler, \<^verbatim>\<open>find_field\<close> fails exactly when the path has a bad segment: one that names
  a field that is not exported, or that is reached at a type which is not a struct below
  its pointers, or for which \<^verbatim>\<open>FieldByName\<close> finds no field in the struct reached. Every
  failure is a configuration error, and without a bad segment compilation returns a
  descriptor. This holds for every \<^verbatim>\<open>FieldByName\<close>, \<^verbatim>\<open>IsUpper\<close> and mangler lookup.
\<close>

theorem compile_fails_iff_bad_segment:
  assumes supported: "\<forall>leaf. path_type L t names = Some leaf \<longrightarrow> mangler_Get L leaf \<noteq> None"
  shows "((\<exists>e. find_field L h t names = Inl e) \<longleftrightarrow> (\<exists>i<length names. bad_segment L t names i)) \<and>
         (\<forall>e. find_field L h t names = Inl e \<longrightarrow> is_ConfigurationError e) \<and>
         ((\<exists>sf h'. find_field L h t names = Inr (sf, h')) \<longleftrightarrow> \<not> (\<exists>i<length names. bad_segment L t names i))"
proof -
  have no_mangle: "mangler_Get L leaf \<noteq> None"
    if "find_offsets L t names [] = Inr (offs, leaf)" for offs leaf
    using supported find_offsets_path_type [OF that] by blast
  have inl: "find_field L h t names = Inl e \<longleftrightarrow> find_offsets L t names [] = Inl e" for e
    unfolding find_field_Inl using no_mangle by blast
  have a: "(\<exists>e. find_field L h t names = Inl e) \<longleftrightarrow> (\<exists>i<length names. bad_segment L t names i)"
    by (simp add: inl find_offsets_fails_iff)
  have b: "is_ConfigurationError e" if "find_field L h t names = Inl e" for e
    using that find_offsets_error_kind [of L t names e] by (auto simp: inl)
  have c: "(\<exists>sf h'. find_field L h t names = Inr (sf, h')) \<longleftrightarrow> \<not> (\<exists>e. find_field L h t names = Inl e)"
    by (cases "find_field L h t names") auto
  show ?thesis using a b c by blast
qed

theorem compile_fails_iff_bad_segment_witness:
  "path_type go_lib Person [''Address'', ''City''] = Some (Basic KString) \<and>
   mangler_Get go_lib (Basic KString) \<noteq> None \<and>
   (\<exists>sf h'. find_field go_lib heap0 Person [''Address'', ''City''] = Inr (sf, h')) \<and>
   \<not> (\<exists>i<length [''Address'', ''City'']. bad_segment go_lib Person [''Address'', ''City''] i) \<and>
   \<not> (\<exists>e. find_field go_lib heap0 Person [''Address'', ''City''] = Inl e) \<and>
   path_type go_lib Person [''Address'', ''Country''] = None \<and>
   bad_segment go_lib Person [''Address'', ''Country''] 1 \<and>
   (\<exists>e. find_field go_lib heap0 Person [''Address'', ''Country''] = Inl e \<and> is_ConfigurationError e) \<and>
   path_type go_lib Emb [''City''] = Some (Basic KString) \<and>
   (\<exists>sf h'. find_field go_lib emb_heap Emb [''City''] = Inr (sf, h')) \<and>
   \<not> (\<exists>i<length [''City'']. bad_segment go_lib Emb [''City''] i)"
proof -
  have m: "mangler_Get go_lib (Basic KString) \<noteq> None"
    by (simp add: mangler_Get_go_lib)
  have s: "\<forall>leaf. path_type go_lib Person [''Address'', ''City''] = Some leaf \<longrightarrow> mangler_Get go_lib leaf \<noteq> None"
    unfolding path_type_person_city using m by simp
  have "\<exists>sf h'. find_field go_lib heap0 Person [''Address'', ''City''] = Inr (sf, h')"
    using find_field_person_city by blast
  with compile_fails_iff_bad_segment [OF s, of heap0] m path_type_person_city
  have good: "path_type go_lib Person [''Address'', ''City''] = Some (Basic KString) \<and>
      mangler_Get go_lib (Basic KString) \<noteq> None \<and>
      (\<exists>sf h'. find_field go_lib heap0 Person [''Address'', ''City''] = Inr (sf, h')) \<and>
      \<not> (\<exists>i<length [''Address'', ''City'']. bad_segment go_lib Person [''Address'', ''City''] i) \<and>
      \<not> (\<exists>e. find_field go_lib heap0 Person [''Address'', ''City''] = Inl e)"
    by blast
  note n = path_type_person_country
  have b: "bad_segment go_lib Person [''Address'', ''Country''] 1"
    by (simp add: bad_segment_def reflect_go_lib Person_def Address_def)
  have s': "\<forall>leaf. path_type go_lib Person [''Address'', ''Country''] = Some leaf \<longrightarrow> mangler_Get go_lib leaf \<noteq> None"
    unfolding n by simp
  have "\<exists>i<length [''Address'', ''Country'']. bad_segment go_lib Person [''Address'', ''Country''] i"
    using b by (intro exI [of _ 1]) simp
  with compile_fails_iff_bad_segment [OF s', of heap0]
  have bad: "\<exists>e. find_field go_lib heap0 Person [''Address'', ''Country''] = Inl e \<and> is_ConfigurationError e"
    by blast
  have s'': "\<forall>leaf. path_type go_lib Emb [''City''] = Some leaf \<longrightarrow> mangler_Get go_lib leaf \<noteq> None"
    unfolding path_type_emb_city using m by simp
  have "\<exists>sf h'. find_field go_lib emb_heap Emb [''City''] = Inr (sf, h')"
    using find_field_emb_city by blast
  with compile_fails_iff_bad_segment [OF s'', of emb_heap] path_type_emb_city
  have emb: "path_type go_lib Emb [''City''] = Some (Basic KString) \<and>
      (\<exists>sf h'. find_field go_lib emb_heap Emb [''City''] = Inr (sf, h')) \<and>
      \<not> (\<exists>i<length [''City'']. bad_segment go_lib Emb [''City''] i)"
    by blast
  from good n b bad emb show ?thesis by blast
qed

text \<open>
  Claim C5 says that the offset of each step is the offset of the named field in the
  struct reached. On a direct path it is (lemma \<open>find_offsets_direct_steps\<close>).
  For a field promoted from an embedded struct it is not: \<^verbatim>\<open>find_field\<close> stores the
  \<^verbatim>\<open>Offset\<close> that \<^verbatim>\<open>FieldByName\<close> reports, which counts from the embedded struct. For
  \<^verbatim>\<open>Emb\<close> and the path \<^verbatim>\<open>["City"]\<close> the one step has offset 0, while \<^verbatim>\<open>City\<close> is stored at
  offset 16 of an \<^verbatim>\<open>Emb\<close>; extraction from the \<^verbatim>\<open>Emb\<close> in block 1, whose \<^verbatim>\<open>City\<close> is
  \<^verbatim>\<open>"Berlin"\<close>, returns its \<^verbatim>\<open>Pad\<close>.
\<close>

theorem promoted_field_offset_counts_from_embedded_struct:
  "find_field go_lib emb_heap Emb [''City''] = Inr (emb_city, emb_heap1) \<and>
   offsets emb_city = [\<lparr>derefs = 0, offset = 0\<rparr>] \<and>
   selector_offset Emb ''City'' = Some 16 \<and>
   UnsafeIndirect emb_heap1 Emb (Ptr 1 0) =
     Inr (VStruct [VString ''PAD'', VStruct [VString ''Berlin'']]) \<and>
   UnsafeIndirect emb_heap1 (Basic KString) (Ptr 1 16) = Inr (VString ''Berlin'') \<and>
   extract_field emb_heap1 (Ptr 1 0) emb_city = Inr (VString ''PAD'')"
  using find_field_emb_city selector_offset_Emb_City value_emb city_of_emb extract_emb_city
  by (simp add: emb_city_def)


section \<open>The claims about the value extractor\<close>

text \<open>
  Claim C1 says that extraction never raises and never yields a corrupt value. For a
  descriptor compiled from a direct path that is so (lemma \<open>extract_field_compiled\<close>).
  For a path through a promoted field it is not. \<^verbatim>\<open>find_field\<close> compiles the path
  \<^verbatim>\<open>["P","V"]\<close> of an \<^verbatim>\<open>Outer\<close> to a first step with offset 8, the offset of \<^verbatim>\<open>P\<close> in
  \<^verbatim>\<open>EmbP\<close>, while \<^verbatim>\<open>P\<close> is stored at offset 16 of an \<^verbatim>\<open>Outer\<close>. On the well-typed \<^verbatim>\<open>Outer\<close>
  in block 2 extraction reads the integer \<^verbatim>\<open>X\<close> at offset 8 as a pointer and fails, where
  following \<^verbatim>\<open>P\<close> leads to the string \<^verbatim>\<open>"v"\<close>.
\<close>

theorem promoted_field_extraction_reads_foreign_memory:
  "find_field go_lib emb_heap Outer [''P'', ''V''] = Inr (outer_pv, emb_heap1) \<and>
   wt emb_heap1 Outer (Ptr 2 0) \<and>
   UnsafeIndirect emb_heap1 (type2 outer_pv) (zero outer_pv) = Inr (zero_val (type2 outer_pv)) \<and>
   offsets outer_pv = [\<lparr>derefs = 0, offset = 8\<rparr>, \<lparr>derefs = 2, offset = 0\<rparr>] \<and>
   selector_offset Outer ''P'' = Some 16 \<and>
   deref emb_heap1 (Ptr 2 16) 2 = Inr (Ptr 4 0) \<and>
   UnsafeIndirect emb_heap1 (Basic KString) (Ptr 4 0) = Inr (VString ''v'') \<and>
   extract_field emb_heap1 (Ptr 2 0) outer_pv = Inl (BadCell (Ptr 2 8)) \<and>
   extract_fields emb_heap1 (Ptr 2 0) [outer_pv] = Inl (BadCell (Ptr 2 8))"
proof -
  have "UnsafeIndirect emb_heap1 (type2 outer_pv) (zero outer_pv) = Inr (zero_val (type2 outer_pv))"
    using zero_emb_heap1 by (simp add: outer_pv_def)
  moreover have "offsets outer_pv = [\<lparr>derefs = 0, offset = 8\<rparr>, \<lparr>derefs = 2, offset = 0\<rparr>]"
    by (simp add: outer_pv_def)
  moreover have "extract_fields emb_heap1 (Ptr 2 0) [outer_pv] = Inl (BadCell (Ptr 2 8))"
    by (simp only: extract_fields_eq list.map extract_outer_pv sequence.simps sum.case)
  ultimately show ?thesis
    using find_field_outer_pv wt_outer selector_offset_Outer_P value_of_outer_pv extract_outer_pv
    by simp
qed



text \<open>
  Claim C9. For every list of descriptors, each compiled by \<^verbatim>\<open>find_field\<close> from a
  non-empty path and each with its zero object intact, \<^verbatim>\<open>extract_fields\<close> on the nil
  instance pointer returns the zero value of the leaf type for every descriptor. The
  result is a value and not the error \<open>NilArithmetic\<close>: no offset is added to nil, at
  any dereference count of the first step.
\<close>

theorem nil_instance_yields_zero_values:
  assumes "\<forall>f\<in>set sfields. \<exists>h0 t names h1. names \<noteq> [] \<and> find_field L h0 t names = Inr (f, h1)"
    and "\<forall>f\<in>set sfields. UnsafeIndirect h (type2 f) (zero f) = Inr (zero_val (type2 f))"
  shows "extract_fields h NilPtr sfields = Inr (map (\<lambda>f. zero_val (type2 f)) sfields)"
proof -
  have "extract_field h NilPtr f = Inr (zero_val (type2 f))" if f: "f \<in> set sfields" for f
  proof -
    from assms(1) f obtain h0 t names h1 where
      c: "names \<noteq> []" "find_field L h0 t names = Inr (f, h1)" by blast
    from c(2) obtain leaf where "find_offsets L t names [] = Inr (offsets f, leaf)"
      by (auto simp: find_field_Inr)
    then have "length (offsets f) = length names" by (rule find_offsets_length)
    with c(1) have "offsets f \<noteq> []" by auto
    then have "absent h NilPtr (offsets f)" by (rule absent_nil)
    then show ?thesis using assms(2) f by (simp add: extract_field_absent)
  qed
  then have "sequence (map (extract_field h NilPtr) sfields) = Inr (map (\<lambda>f. zero_val (type2 f)) sfields)"
    by (rule sequence_cong_Inr)
  then show ?thesis by (simp add: extract_fields_eq)
qed

theorem nil_instance_yields_zero_values_witness:
  "[''Address'', ''City''] \<noteq> [] \<and> [''City''] \<noteq> [] \<and>
   find_field go_lib heap0 Person [''Address'', ''City''] = Inr (person_city, heap1) \<and>
   find_field go_lib heap1 Address [''City''] = Inr (address_city, heap2) \<and>
   UnsafeIndirect heap2 (type2 person_city) (zero person_city) = Inr (zero_val (type2 person_city)) \<and>
   UnsafeIndirect heap2 (type2 address_city) (zero address_city) = Inr (zero_val (type2 address_city)) \<and>
   extract_fields heap2 NilPtr [person_city, address_city] = Inr [VString '''', VString '''']"
proof -
  have n: "[''Address'', ''City''] \<noteq> []" "[''City''] \<noteq> []" by simp_all
  have a: "\<forall>f\<in>set [person_city, address_city].
             \<exists>h0 t names h1. names \<noteq> [] \<and> find_field go_lib h0 t names = Inr (f, h1)"
    using find_field_person_city find_field_address_city n by (simp del: not_Cons_self2) blast
  have z: "UnsafeIndirect heap2 (type2 person_city) (zero person_city) = Inr (zero_val (type2 person_city))"
    "UnsafeIndirect heap2 (type2 address_city) (zero address_city) = Inr (zero_val (type2 address_city))"
    using zero_heap2 by (simp_all add: address_city_def person_city_def)
  then have b: "\<forall>f\<in>set [person_city, address_city].
                  UnsafeIndirect heap2 (type2 f) (zero f) = Inr (zero_val (type2 f))"
    by simp
  from nil_instance_yields_zero_values [OF a b]
  have "extract_fields heap2 NilPtr [person_city, address_city] = Inr [VString '''', VString '''']"
    by (simp add: person_city_def address_city_def)
  with n find_field_person_city find_field_address_city z show ?thesis by blast
qed

section \<open>The Person scenario\<close>

text \<open>
  Claim C4, as the scenario writes it: the record types with the field names
  \<^verbatim>\<open>name\<close>, \<^verbatim>\<open>address\<close> and \<^verbatim>\<open>city\<close>, and the path \<^verbatim>\<open>["address","city"]\<close>. The path is
  not compiled: \<^verbatim>\<open>pop_name\<close> panics at the first name, which is not exported.
\<close>

theorem person_lowercase_path_not_compiled:
  "find_field go_lib heap0 person_lower [''address'', ''city''] = Inl (FieldNotExported ''address'')"
  by (simp add: find_field_Inl find_offsets_Cons is_exported_go_lib)

text \<open>
  Claim C4, amended: with exported field names, that is for
  \<^verbatim>\<open>Person { Name string; Address *Address }\<close> and \<^verbatim>\<open>Address { City string }\<close>, compiling
  the path \<^verbatim>\<open>["Address","City"]\<close> succeeds; extracting from the person in block 1, whose
  address is nil, gives the empty string, and the descriptor's zero encoding is the
  encoding of the empty string; compiling \<^verbatim>\<open>["Address","Country"]\<close> fails with the
  configuration error of an unknown field.
\<close>

theorem person_scenario_exported_names:
  "find_field go_lib heap0 Person [''Address'', ''City''] = Inr (person_city, heap1) \<and>
   read_ptr heap1 (Ptr 1 16) = Inr NilPtr \<and>
   extract_fields heap1 (Ptr 1 0) [person_city] = Inr [VString ''''] \<and>
   zerostr person_city = mangle person_city (VString '''') \<and>
   zerostr person_city = encode KString (VString '''') \<and>
   find_field go_lib heap0 Person [''Address'', ''Country''] = Inl (UnknownField ''Country'') \<and>
   is_ConfigurationError (UnknownField ''Country'')"
proof -
  have "read_ptr heap1 (Ptr 1 16) = Inr NilPtr"
    by (simp add: read_ptr_def cells_heap1 heap0_def)
  moreover have "extract_fields heap1 (Ptr 1 0) [person_city] = Inr [VString '''']"
    by (simp only: extract_fields_eq list.map extract_ann sequence.simps sum.case)
  moreover have "zerostr person_city = encode KString (VString '''')"
    by (simp add: person_city_def be_bytes_0)
  moreover have "mangle person_city = encode KString"
    by (simp add: person_city_def)
  ultimately show ?thesis
    using find_field_person_city find_field_country by simp
qed

end
